theory Spec2Isabelle
  imports Complex_Main "HOL-Library.Word" "HOL-Library.Log_Nat"
begin

section \<open>Data model of \<open>noise.py\<close>\<close>

text \<open>
  The class \<open>NoiseReducer\<close> is a record of the attributes its methods read or write.
  A chunk is a one-dimensional array of samples. Samples are real numbers: the
  double-precision steps of the pipeline (filtering, the Fourier transforms, the
  scaling to 16 bits) are taken as exact real arithmetic, and infinities and NaN are
  left out. The one single-precision computation of the program, the mean that forms
  the noise profile, keeps its rounding (section \<open>The noise profile\<close>).

  The attributes \<open>b\<close> and \<open>a\<close> are the fields \<open>filt_b\<close> and \<open>filt_a\<close>.
  \<open>logger\<close> calls are entries appended to the \<open>logged\<close> field. Exceptions are values
  of type \<open>error\<close>; a method that raises returns \<open>Inl\<close> of the error and of the object
  as the exception leaves it.
\<close>

type_synonym chunk = "real list"

datatype error = ZeroDivisionError | ValueError | WaveError

datatype log_entry =
    Info_starting_calibration
  | Info_calibration_completed
  | Warning_no_chunks_received
  | Info_starting_recording string
  | Info_recording_saved string
  | Info_actual_duration real
  | Warning_no_frames_captured
  | Error_in_callback error

record reducer =
  mode :: string
  chunk_size :: int
  sample_rate :: int
  audio_queue :: "chunk list"
  output_frames :: "chunk list"
  channels :: int
  noise_profile :: "chunk option"
  is_calibrating :: bool
  recording :: bool
  filt_b :: "real list"
  filt_a :: "real list"
  logged :: "log_entry list"

text \<open>
  \<open>__init__\<close>. The coefficients that \<open>signal.butter\<close> returns are a parameter
  \<open>coeffs\<close>; what is kept of \<open>butter\<close> is its check of the band, which must lie
  strictly between 0 and the Nyquist frequency.
\<close>

definition init :: "string \<Rightarrow> int \<Rightarrow> int \<Rightarrow> real list \<times> real list \<Rightarrow> error + reducer" where
  "init m cs sr coeffs =
     (let nyquist = real_of_int sr / 2 in
      if nyquist = 0 then Inl ZeroDivisionError
      else if \<not> (0 < 300 / nyquist \<and> 3400 / nyquist < 1) then Inl ValueError
      else Inr \<lparr> mode = m, chunk_size = cs, sample_rate = sr, audio_queue = [],
                 output_frames = [], channels = 1, noise_profile = None,
                 is_calibrating = False, recording = False,
                 filt_b = fst coeffs, filt_a = snd coeffs, logged = [] \<rparr>)"

section \<open>Number of chunks of a calibration\<close>

text \<open>Python's \<open>int\<close> of a float drops the fractional part (it rounds towards zero).\<close>

definition py_int :: "real \<Rightarrow> int" where
  "py_int x = (if 0 \<le> x then \<lfloor>x\<rfloor> else \<lceil>x\<rceil>)"

text \<open>Line 95: \<open>int(duration * self.sample_rate / self.chunk_size)\<close>.\<close>

definition chunks_needed :: "reducer \<Rightarrow> real \<Rightarrow> error + int" where
  "chunks_needed st duration =
     (if chunk_size st = 0 then Inl ZeroDivisionError
      else Inr (py_int (duration * real_of_int (sample_rate st) / real_of_int (chunk_size st))))"

section \<open>Denoising one chunk\<close>

subsection \<open>The bandpass filter\<close>

text \<open>
  \<open>signal.lfilter(b, a, x)\<close> with zero initial state: the difference equation
  \<open>a[0]*y[n] = b[0]*x[n] + ... + b[M]*x[n-M] - a[1]*y[n-1] - ... - a[N]*y[n-N]\<close>.
  The histories \<open>xh\<close> and \<open>yh\<close> hold the earlier inputs and outputs, newest first.
  \<open>lfilter\<close> raises \<open>ValueError\<close> when \<open>a\<close> is empty or starts with zero.
\<close>

fun dot :: "real list \<Rightarrow> real list \<Rightarrow> real" where
  "dot (c # cs) (h # hs) = c * h + dot cs hs"
| "dot _ _ = 0"

fun lfilter_run :: "real list \<Rightarrow> real list \<Rightarrow> real list \<Rightarrow> real list \<Rightarrow> chunk \<Rightarrow> chunk" where
  "lfilter_run fb fa xh yh [] = []"
| "lfilter_run fb fa xh yh (x # xs) =
     (let y = (dot fb (x # xh) - dot (tl fa) yh) / hd fa
      in y # lfilter_run fb fa (x # xh) (y # yh) xs)"

definition lfilter :: "real list \<Rightarrow> real list \<Rightarrow> chunk \<Rightarrow> error + chunk" where
  "lfilter fb fa x =
     (if fa = [] \<or> hd fa = 0 then Inl ValueError else Inr (lfilter_run fb fa [] [] x))"

subsection \<open>The real Fourier transform and its inverse\<close>

text \<open>
  \<open>np.fft.rfft\<close> of \<open>N\<close> samples returns the bins \<open>0 .. N div 2\<close> of the discrete
  Fourier transform, and raises \<open>ValueError\<close> on an empty array.
\<close>

definition dft_bin :: "chunk \<Rightarrow> nat \<Rightarrow> complex" where
  "dft_bin x k =
     (\<Sum>(n, v) \<leftarrow> enumerate 0 x.
        complex_of_real v * cis (- (2 * pi * real k * real n / real (length x))))"

definition rfft :: "chunk \<Rightarrow> error + complex list" where
  "rfft x =
     (if length x < 1 then Inl ValueError
      else Inr (map (dft_bin x) [0..<length x div 2 + 1]))"

text \<open>
  \<open>np.fft.irfft\<close> called without a length: from \<open>m\<close> bins it rebuilds
  \<open>n = 2 * (m - 1)\<close> samples and raises \<open>ValueError\<close> when \<open>n < 1\<close>. The first and
  the last bin count once, the bins between count twice (they stand for their
  conjugates as well); only the real part of each term remains.
\<close>

definition irfft_sample :: "complex list \<Rightarrow> nat \<Rightarrow> real" where
  "irfft_sample X j =
     (let m = length X; n = 2 * (m - 1) in
      (\<Sum>(k, c) \<leftarrow> enumerate 0 X.
         (if k = 0 \<or> k = m - 1 then 1 else 2)
           * Re (c * cis (2 * pi * real k * real j / real n))) / real n)"

definition irfft :: "complex list \<Rightarrow> error + chunk" where
  "irfft X =
     (let n = 2 * (length X - 1) in
      if n < 1 then Inl ValueError else Inr (map (irfft_sample X) [0..<n]))"

subsection \<open>Element-wise operations\<close>

text \<open>
  A binary operation of numpy on two one-dimensional arrays: equal lengths combine
  element by element, an array of length one is broadcast along the other, and any
  other pair of lengths raises \<open>ValueError\<close>.
\<close>

definition broadcast2 :: "('a \<Rightarrow> 'b \<Rightarrow> 'c) \<Rightarrow> 'a list \<Rightarrow> 'b list \<Rightarrow> error + 'c list" where
  "broadcast2 f xs ys =
     (if length xs = length ys then Inr (map2 f xs ys)
      else if length xs = 1 then Inr (map (f (hd xs)) ys)
      else if length ys = 1 then Inr (map (\<lambda>x. f x (hd ys)) xs)
      else Inl ValueError)"

text \<open>
  \<open>np.exp(1j * np.angle(z))\<close>: the point of the unit circle in the direction of
  \<open>z\<close>, and 1 at \<open>z = 0\<close>, where \<open>np.angle\<close> is 0 (lemma \<open>phase_exp_angle\<close> below).
\<close>

definition phase :: "complex \<Rightarrow> complex" where
  "phase z = (if z = 0 then 1 else sgn z)"

definition clip :: "real \<Rightarrow> real" where
  "clip x = min 1 (max (- 1) x)"

subsection \<open>\<open>process_chunk\<close>\<close>

text \<open>Lines 72 to 80: the magnitude spectrum that is left after the subtraction.\<close>

definition clean_mag :: "chunk \<Rightarrow> chunk \<Rightarrow> error + real list" where
  "clean_mag filtered prof =
     (case rfft filtered of Inl e \<Rightarrow> Inl e
      | Inr chunk_spec \<Rightarrow>
        (case rfft prof of Inl e \<Rightarrow> Inl e
         | Inr noise_spec \<Rightarrow>
           (case broadcast2 (-) (map cmod chunk_spec) (map cmod noise_spec) of
              Inl e \<Rightarrow> Inl e
            | Inr d \<Rightarrow> Inr (map (\<lambda>v. max v 0) d))))"

text \<open>Lines 72 to 84: the chunk rebuilt from that magnitude and the phase of the input.\<close>

definition spectral_subtract :: "chunk \<Rightarrow> chunk \<Rightarrow> error + chunk" where
  "spectral_subtract filtered prof =
     (case rfft filtered of Inl e \<Rightarrow> Inl e
      | Inr chunk_spec \<Rightarrow>
        (case clean_mag filtered prof of Inl e \<Rightarrow> Inl e
         | Inr cm \<Rightarrow>
           (case broadcast2 (\<lambda>m z. complex_of_real m * phase z) cm chunk_spec of
              Inl e \<Rightarrow> Inl e
            | Inr clean_spec \<Rightarrow> irfft clean_spec)))"

definition process_chunk :: "reducer \<Rightarrow> chunk \<Rightarrow> error + chunk" where
  "process_chunk st chunk =
     (case lfilter (filt_b st) (filt_a st) chunk of Inl e \<Rightarrow> Inl e
      | Inr filtered \<Rightarrow>
        (case noise_profile st of
           None \<Rightarrow> Inr (map clip filtered)
         | Some prof \<Rightarrow>
           (case spectral_subtract filtered prof of Inl e \<Rightarrow> Inl e
            | Inr cleaned \<Rightarrow> Inr (map clip cleaned))))"

section \<open>The stream callback\<close>

text \<open>
  \<open>callback\<close> runs once for each chunk the device delivers. While recording it
  denoises the chunk and appends the result; an exception of \<open>process_chunk\<close> is
  caught and logged. While only calibrating it puts the raw chunk on the queue;
  \<open>Queue(maxsize=100).put\<close> blocks while the queue is full, and then the call
  has no result (\<open>None\<close>).
\<close>

definition callback :: "reducer \<Rightarrow> chunk \<Rightarrow> reducer option" where
  "callback st in_data =
     (if recording st \<or> is_calibrating st then
        (if recording st then
           (case process_chunk st in_data of
              Inr processed \<Rightarrow> Some (st\<lparr>output_frames := output_frames st @ [processed]\<rparr>)
            | Inl e \<Rightarrow> Some (st\<lparr>logged := logged st @ [Error_in_callback e]\<rparr>))
         else if length (audio_queue st) < 100
           then Some (st\<lparr>audio_queue := audio_queue st @ [in_data]\<rparr>)
           else None)
      else Some st)"

section \<open>The noise profile\<close>

subsection \<open>Single precision\<close>

text \<open>
  The callback reads the device buffer with \<open>dtype=np.float32\<close>, and \<open>np.mean\<close> of
  a single-precision array adds and divides in single precision. \<open>f32\<close> rounds a
  real number to the nearest binary32 value, ties to the even significand: 24
  significant bits, exponents from \<open>-126\<close> (below it the spacing stays \<open>2^-149\<close>).
  The exponent is not bounded above, so a result of magnitude \<open>2^128\<close> or more
  stands for an overflow to infinity; \<open>is_f32\<close> holds of the finite binary32 values.
\<close>

definition rne :: "real \<Rightarrow> int" where
  "rne x =
     (let f = \<lfloor>x\<rfloor>; r = x - of_int f in
      if r < 1 / 2 then f else if 1 / 2 < r then f + 1 else if even f then f else f + 1)"

text \<open>The exponent \<open>e\<close> of a positive number \<open>y\<close>: \<open>2^e \<le> y < 2^(e+1)\<close>.\<close>

definition ilog2 :: "real \<Rightarrow> int" where
  "ilog2 y = (if 1 \<le> y then bitlen \<lfloor>y\<rfloor> - 1 else - bitlen (\<lceil>1 / y\<rceil> - 1))"

definition f32 :: "real \<Rightarrow> real" where
  "f32 x =
     (if x = 0 then 0
      else let e = max (- 126) (ilog2 \<bar>x\<bar>); u = 2 powi (e - 23)
           in of_int (rne (x / u)) * u)"


subsection \<open>\<open>np.mean(np.vstack(noise_chunks), axis=0)\<close>\<close>

text \<open>
  \<open>np.vstack\<close> raises \<open>ValueError\<close> on no rows and on rows of different lengths.
  The mean of a column is its single-precision sum, taken row after row, divided by
  the number of rows.
\<close>

definition f32_sum :: "real list \<Rightarrow> real" where
  "f32_sum xs = foldl (\<lambda>s x. f32 (s + x)) 0 xs"

definition np_mean :: "chunk list \<Rightarrow> error + chunk" where
  "np_mean rows =
     (if rows = [] \<or> (\<exists>r \<in> set rows. length r \<noteq> length (hd rows)) then Inl ValueError
      else Inr (map (\<lambda>j. f32 (f32_sum (map (\<lambda>r. r ! j) rows) / real (length rows)))
                  [0..<length (hd rows)]))"

section \<open>\<open>calibrate_noise\<close>\<close>

text \<open>
  While \<open>calibrate_noise\<close> polls the queue, the device thread delivers chunks. A run
  is a list of events in the order they happen: \<open>Deliver c\<close>, the callback runs on
  chunk \<open>c\<close>; \<open>Tick t\<close>, the loop of lines 109 to 114 found too few chunks, read the
  clock \<open>t\<close> seconds after \<open>start_time\<close> and, when \<open>t\<close> is before the deadline, asked
  the queue for a chunk (\<open>queue.Empty\<close> when there is none after the timeout). The
  loop returns \<open>None\<close> when the events end before it does, or when a delivery blocks
  on the full queue.
\<close>

datatype event = Deliver chunk | Tick real

definition calibrate_begin :: "reducer \<Rightarrow> reducer" where
  "calibrate_begin st =
     st\<lparr>logged := logged st @ [Info_starting_calibration],
        is_calibrating := True, audio_queue := []\<rparr>"

fun calibrate_loop ::
  "int \<Rightarrow> real \<Rightarrow> reducer \<Rightarrow> chunk list \<Rightarrow> event list \<Rightarrow> (reducer \<times> chunk list) option" where
  "calibrate_loop need limit st noise_chunks [] =
     (if int (length noise_chunks) < need then None else Some (st, noise_chunks))"
| "calibrate_loop need limit st noise_chunks (Deliver c # evs) =
     (if int (length noise_chunks) < need then
        (case callback st c of
           None \<Rightarrow> None
         | Some st' \<Rightarrow> calibrate_loop need limit st' noise_chunks evs)
      else Some (st, noise_chunks))"
| "calibrate_loop need limit st noise_chunks (Tick t # evs) =
     (if int (length noise_chunks) < need \<and> t < limit then
        (case audio_queue st of
           [] \<Rightarrow> calibrate_loop need limit st noise_chunks evs
         | c # q \<Rightarrow> calibrate_loop need limit (st\<lparr>audio_queue := q\<rparr>) (noise_chunks @ [c]) evs)
      else Some (st, noise_chunks))"

definition calibrate_end :: "reducer \<Rightarrow> chunk list \<Rightarrow> error \<times> reducer + reducer" where
  "calibrate_end st noise_chunks =
     (if noise_chunks \<noteq> [] then
        (case np_mean noise_chunks of
           Inl e \<Rightarrow> Inl (e, st)
         | Inr prof \<Rightarrow>
             Inr (st\<lparr>noise_profile := Some prof,
                     logged := logged st @ [Info_calibration_completed],
                     is_calibrating := False\<rparr>))
      else Inr (st\<lparr>logged := logged st @ [Warning_no_chunks_received],
                   is_calibrating := False\<rparr>))"

definition calibrate_noise ::
  "reducer \<Rightarrow> real \<Rightarrow> event list \<Rightarrow> (error \<times> reducer + reducer) option" where
  "calibrate_noise st duration evs =
     (let st1 = calibrate_begin st in
      case chunks_needed st1 duration of
        Inl e \<Rightarrow> Some (Inl (e, st1))
      | Inr need \<Rightarrow>
          (case calibrate_loop need (duration + 0.5) st1 [] evs of
             None \<Rightarrow> None
           | Some (st2, noise_chunks) \<Rightarrow> Some (calibrate_end st2 noise_chunks)))"

section \<open>\<open>record\<close>\<close>

text \<open>
  \<open>astype(np.int16)\<close> drops the fractional part; a value outside the 16-bit range
  wraps around. \<open>sint\<close> reads the stored sample.
\<close>

definition astype_int16 :: "real \<Rightarrow> 16 word" where
  "astype_int16 y = word_of_int (py_int y)"

record wav_file =
  wav_name :: string
  nchannels :: int
  sampwidth :: int
  framerate :: int
  frames :: "16 word list"

text \<open>
  The method \<open>record\<close> is \<open>record_audio\<close> here. Its last argument lists the chunks
  the device delivers during \<open>time.sleep(duration)\<close>, which raises \<open>ValueError\<close> on
  a negative duration. \<open>wave\<close> refuses a frame rate that is not positive.
\<close>

definition record_begin :: "reducer \<Rightarrow> string \<Rightarrow> reducer" where
  "record_begin st fname =
     st\<lparr>logged := logged st @ [Info_starting_recording fname],
        recording := True, output_frames := []\<rparr>"

fun deliver_all :: "reducer \<Rightarrow> chunk list \<Rightarrow> reducer option" where
  "deliver_all st [] = Some st"
| "deliver_all st (c # cs) =
     (case callback st c of None \<Rightarrow> None | Some st' \<Rightarrow> deliver_all st' cs)"

definition record_end ::
  "reducer \<Rightarrow> string \<Rightarrow> error \<times> reducer + reducer \<times> wav_file option" where
  "record_end st fname =
     (let st1 = st\<lparr>recording := False\<rparr> in
      if output_frames st1 \<noteq> [] then
        (let audio_data = map (\<lambda>x. astype_int16 (x * 32767)) (concat (output_frames st1)) in
         if sample_rate st1 \<le> 0 then Inl (WaveError, st1)
         else Inr (st1\<lparr>logged := logged st1 @
                      [Info_recording_saved fname,
                       Info_actual_duration
                         (real (length audio_data) / real_of_int (sample_rate st1))]\<rparr>,
                   Some \<lparr> wav_name = fname, nchannels = channels st1, sampwidth = 2,
                          framerate = sample_rate st1, frames = audio_data \<rparr>))
      else Inr (st1\<lparr>logged := logged st1 @ [Warning_no_frames_captured]\<rparr>, None))"

definition record_audio ::
  "reducer \<Rightarrow> real \<Rightarrow> string \<Rightarrow> chunk list
     \<Rightarrow> (error \<times> reducer + reducer \<times> wav_file option) option" where
  "record_audio st duration fname delivered =
     (let st1 = record_begin st fname in
      if duration < 0 then Some (Inl (ValueError, st1))
      else (case deliver_all st1 delivered of
              None \<Rightarrow> None
            | Some st2 \<Rightarrow> Some (record_end st2 fname)))"

section \<open>An object for the concrete runs\<close>

text \<open>
  \<open>fresh cs sr\<close> is the object \<open>__init__\<close> returns for chunk size \<open>cs\<close> and sample
  rate \<open>sr\<close> when the coefficients are \<open>b = [1]\<close>, \<open>a = [1]\<close>, the filter that passes
  its input through. The concrete runs below start from it; the general theorems
  hold for every coefficient list.
\<close>

definition fresh :: "int \<Rightarrow> int \<Rightarrow> reducer" where
  "fresh cs sr =
     \<lparr> mode = ''single_speaker'', chunk_size = cs, sample_rate = sr, audio_queue = [],
       output_frames = [], channels = 1, noise_profile = None,
       is_calibrating = False, recording = False,
       filt_b = [1], filt_a = [1], logged = [] \<rparr>"

section \<open>What the specification says\<close>




section \<open>Properties of the denoiser\<close>

lemma init_fresh: "6800 < sr \<Longrightarrow> init ''single_speaker'' cs sr ([1], [1]) = Inr (fresh cs sr)"
  by (simp add: init_def fresh_def Let_def)

lemma phase_exp_angle: "phase z = exp (\<i> * complex_of_real (Arg z))"
proof (cases "z = 0")
  case True
  then show ?thesis by (simp add: phase_def Arg_zero)
next
  case False
  then show ?thesis
    using cis_Arg [of z] by (simp add: phase_def cis_conv_exp)
qed

lemma length_lfilter_run: "length (lfilter_run fb fa xh yh x) = length x"
  by (induction x arbitrary: xh yh) (simp_all add: Let_def)


lemma clip_range: "- 1 \<le> clip x \<and> clip x \<le> 1"
  by (simp add: clip_def)

lemma rfft_Inr: "x \<noteq> [] \<Longrightarrow> rfft x = Inr (map (dft_bin x) [0..<length x div 2 + 1])"
  by (cases x) (simp_all add: rfft_def)

lemma irfft_Inr: "2 \<le> length X \<Longrightarrow> \<exists>y. irfft X = Inr y \<and> length y = 2 * (length X - 1)"
  by (auto simp: irfft_def Let_def)

lemma broadcast2_same:
  "length xs = length ys \<Longrightarrow> broadcast2 f xs ys = Inr (map2 f xs ys)"
  by (simp add: broadcast2_def)

lemma broadcast2_Inr:
  "length xs = length ys \<or> length ys = 1 \<Longrightarrow>
     \<exists>zs. broadcast2 f xs ys = Inr zs \<and> length zs = length xs"
  by (auto simp: broadcast2_def)

text \<open>
  C6. Without a noise profile \<open>process_chunk\<close> returns the filtered chunk clipped to
  \<open>[-1, 1]\<close>: the output has the length of the input and every sample lies in
  \<open>[-1, 1]\<close>. The coefficients are those of a filter \<open>lfilter\<close> accepts (\<open>a[0]\<close> is
  not zero), as \<open>butter\<close> returns them.
\<close>

theorem no_profile_clipped_filter:
  assumes "noise_profile st = None" and "filt_a st \<noteq> []" and "hd (filt_a st) \<noteq> 0"
  shows "\<exists>filtered out.
           lfilter (filt_b st) (filt_a st) chunk = Inr filtered \<and>
           process_chunk st chunk = Inr out \<and>
           out = map clip filtered \<and>
           length out = length chunk \<and>
           (\<forall>x \<in> set out. - 1 \<le> x \<and> x \<le> 1)"
  using assms
  by (auto simp: process_chunk_def lfilter_def length_lfilter_run clip_range)

theorem no_profile_clipped_filter_witness:
  "noise_profile (fresh 2 44100) = None \<and> filt_a (fresh 2 44100) \<noteq> [] \<and>
   hd (filt_a (fresh 2 44100)) \<noteq> 0 \<and>
   process_chunk (fresh 2 44100) [3 / 2, - (1 / 4)] = Inr [1, - (1 / 4)]"
  using no_profile_clipped_filter [of "fresh 2 44100" "[3 / 2, - (1 / 4)]"]
  by (simp add: fresh_def process_chunk_def lfilter_def clip_def)

subsection \<open>Spectral subtraction\<close>

lemma clean_mag_Inr:
  assumes "filtered \<noteq> []" and "prof \<noteq> []"
    and "length prof div 2 = length filtered div 2 \<or> length prof = 1"
  shows "\<exists>cm. clean_mag filtered prof = Inr cm \<and> length cm = length filtered div 2 + 1"
proof -
  let ?cs = "map (dft_bin filtered) [0..<length filtered div 2 + 1]"
  let ?ns = "map (dft_bin prof) [0..<length prof div 2 + 1]"
  have "length (map cmod ?cs) = length (map cmod ?ns) \<or> length (map cmod ?ns) = 1"
    using assms(3) by auto
  from broadcast2_Inr [OF this, of "(-)"]
  obtain d where d: "broadcast2 (-) (map cmod ?cs) (map cmod ?ns) = Inr d"
    "length d = length (map cmod ?cs)" by blast
  show ?thesis
    using d assms(1,2) by (simp add: clean_mag_def rfft_Inr)
qed

lemma spectral_subtract_Inr:
  assumes "2 \<le> length filtered" and "prof \<noteq> []"
    and "length prof div 2 = length filtered div 2 \<or> length prof = 1"
  shows "\<exists>y. spectral_subtract filtered prof = Inr y \<and> length y = 2 * (length filtered div 2)"
proof -
  from assms(1) have ne: "filtered \<noteq> []" by auto
  from clean_mag_Inr [OF ne assms(2,3)] obtain cm where
    cm: "clean_mag filtered prof = Inr cm" "length cm = length filtered div 2 + 1" by blast
  let ?cs = "map (dft_bin filtered) [0..<length filtered div 2 + 1]"
  let ?cl = "map2 (\<lambda>m z. complex_of_real m * phase z) cm ?cs"
  have bc: "broadcast2 (\<lambda>m z. complex_of_real m * phase z) cm ?cs = Inr ?cl"
    using cm(2) by (simp add: broadcast2_same)
  have "2 \<le> length ?cl" using cm(2) assms(1) by simp
  from irfft_Inr [OF this] obtain y where
    y: "irfft ?cl = Inr y" "length y = 2 * (length ?cl - 1)" by blast
  show ?thesis
    using cm bc y ne by (simp add: spectral_subtract_def rfft_Inr)
qed








text \<open>
  C10, as the code has it. With a noise profile, a chunk of \<open>N \<ge> 2\<close> samples and a
  profile with as many bins (one of the same length, say) or of a single sample,
  \<open>process_chunk\<close> returns \<open>N - 1\<close> samples when \<open>N\<close> is odd and \<open>N\<close> samples when
  \<open>N\<close> is even: \<open>irfft\<close> rebuilds \<open>2 * (bins - 1)\<close> samples.
\<close>

theorem profile_output_length:
  assumes "noise_profile st = Some prof" and "filt_a st \<noteq> []" and "hd (filt_a st) \<noteq> 0"
    and "2 \<le> length chunk" and "prof \<noteq> []"
    and "length prof div 2 = length chunk div 2 \<or> length prof = 1"
  shows "\<exists>out. process_chunk st chunk = Inr out \<and>
           length out = (if odd (length chunk) then length chunk - 1 else length chunk)"
proof -
  let ?f = "lfilter_run (filt_b st) (filt_a st) [] [] chunk"
  have lf: "length ?f = length chunk" by (rule length_lfilter_run)
  from spectral_subtract_Inr [of ?f prof] assms(4,5,6) lf
  obtain y where y: "spectral_subtract ?f prof = Inr y" "length y = 2 * (length chunk div 2)"
    by auto
  have "2 * (length chunk div 2) = (if odd (length chunk) then length chunk - 1 else length chunk)"
    by presburger
  then show ?thesis
    using y assms(1,2,3) by (simp add: process_chunk_def lfilter_def)
qed

theorem profile_output_length_witness:
  "noise_profile ((fresh 3 44100)\<lparr>noise_profile := Some [0, 0, 0]\<rparr>) = Some [0, 0, 0] \<and>
   odd (length [1 / 4, 0, 1 / 4 :: real]) \<and>
   (\<exists>out. process_chunk ((fresh 3 44100)\<lparr>noise_profile := Some [0, 0, 0]\<rparr>) [1 / 4, 0, 1 / 4]
            = Inr out \<and> length out = 2)"
  using profile_output_length
    [of "(fresh 3 44100)\<lparr>noise_profile := Some [0, 0, 0]\<rparr>" "[0, 0, 0]" "[1 / 4, 0, 1 / 4]"]
  by (auto simp: fresh_def)

text \<open>
  C10 as stated fails for the odd length 1: one sample has one bin, \<open>irfft\<close> is asked
  for \<open>2 * (1 - 1) = 0\<close> samples and raises \<open>ValueError\<close>; no chunk of length 0 is
  returned.
\<close>

theorem odd_length_one_counterexample:
  "process_chunk ((fresh 1 44100)\<lparr>noise_profile := Some [1 / 2]\<rparr>) [1 / 4] = Inl ValueError"
  by (simp add: process_chunk_def fresh_def lfilter_def Let_def spectral_subtract_def rfft_def
      clean_mag_def broadcast2_def irfft_def)

section \<open>Properties of calibration and recording\<close>

lemma process_chunk_cong:
  "filt_b s = filt_b t \<Longrightarrow> filt_a s = filt_a t \<Longrightarrow> noise_profile s = noise_profile t
     \<Longrightarrow> process_chunk s c = process_chunk t c"
  by (simp add: process_chunk_def split: sum.splits option.splits)

lemma callback_fields:
  assumes "callback st c = Some st'"
  shows "noise_profile st' = noise_profile st" "filt_b st' = filt_b st" "filt_a st' = filt_a st"
    "is_calibrating st' = is_calibrating st" "recording st' = recording st"
    "chunk_size st' = chunk_size st" "sample_rate st' = sample_rate st"
    "channels st' = channels st" "mode st' = mode st"
  using assms by (auto simp: callback_def split: if_splits sum.splits)

lemma calibrate_loop_fields:
  assumes "calibrate_loop need limit st acc evs = Some (st', cs)"
  shows "noise_profile st' = noise_profile st \<and> filt_b st' = filt_b st \<and> filt_a st' = filt_a st \<and>
    is_calibrating st' = is_calibrating st \<and> recording st' = recording st \<and>
    chunk_size st' = chunk_size st \<and> sample_rate st' = sample_rate st"
  using assms
proof (induction need limit st acc evs rule: calibrate_loop.induct)
  case (1 need limit st noise_chunks)
  then show ?case by (simp split: if_splits)
next
  case (2 need limit st noise_chunks c evs)
  then show ?case
    by (auto split: if_splits option.splits dest: callback_fields)
next
  case (3 need limit st noise_chunks t evs)
  then show ?case
    by (auto split: if_splits list.splits)
qed


lemma callback_queue:
  "callback st c = Some st' \<Longrightarrow> length (audio_queue st') \<le> Suc (length (audio_queue st))"
  by (auto simp: callback_def split: if_splits sum.splits)

lemma callback_Some:
  "length (audio_queue st) < 100 \<Longrightarrow> \<exists>st'. callback st c = Some st'"
  by (auto simp: callback_def split: sum.splits)

lemma calibrate_loop_returns:
  assumes "limit \<le> t"
    and "length (audio_queue st) + length (filter (\<lambda>e. \<exists>c. e = Deliver c) evs) \<le> 100"
  shows "\<exists>r. calibrate_loop need limit st acc (evs @ [Tick t]) = Some r"
  using assms
proof (induction evs arbitrary: st acc)
  case Nil
  then show ?case by simp
next
  case (Cons e evs)
  show ?case
  proof (cases e)
    case (Deliver c)
    with Cons.prems have "length (audio_queue st) < 100" by simp
    from callback_Some [OF this] obtain st' where st': "callback st c = Some st'" by blast
    from callback_queue [OF st'] Cons.prems Deliver
    have "length (audio_queue st') + length (filter (\<lambda>e. \<exists>c. e = Deliver c) evs) \<le> 100"
      by simp
    from Cons.IH [OF Cons.prems(1) this] show ?thesis
      using Deliver st' by simp
  next
    case (Tick u)
    show ?thesis
    proof (cases "audio_queue st")
      case Nil
      with Cons.IH [OF Cons.prems(1), of st] Cons.prems(2) Tick show ?thesis by simp
    next
      case (Cons c q)
      with Cons.IH [OF Cons.prems(1), of "st\<lparr>audio_queue := q\<rparr>"] Cons.prems(2) Tick
      show ?thesis by simp
    qed
  qed
qed







text \<open>
  C9. A calibration that collects no chunk leaves the stored noise profile as it
  was, and \<open>process_chunk\<close> gives the same result after it as before.
\<close>

theorem no_chunks_profile_kept:
  assumes "chunks_needed (calibrate_begin st) duration = Inr need"
    and "calibrate_loop need (duration + 0.5) (calibrate_begin st) [] evs = Some (st2, [])"
  shows "\<exists>st'. calibrate_noise st duration evs = Some (Inr st') \<and>
           noise_profile st' = noise_profile st \<and>
           (\<forall>chunk. process_chunk st' chunk = process_chunk st chunk)"
proof -
  let ?st' = "st2\<lparr>logged := logged st2 @ [Warning_no_chunks_received], is_calibrating := False\<rparr>"
  have r: "calibrate_noise st duration evs = Some (Inr ?st')"
    using assms by (simp add: calibrate_noise_def calibrate_end_def Let_def)
  from calibrate_loop_fields [OF assms(2)]
  have f: "noise_profile ?st' = noise_profile st" "filt_b ?st' = filt_b st"
    "filt_a ?st' = filt_a st"
    by (simp_all add: calibrate_begin_def)
  have "process_chunk ?st' chunk = process_chunk st chunk" for chunk
    by (rule process_chunk_cong [OF f(2,3,1)])
  with r f(1) show ?thesis by blast
qed

text \<open>
  A profile from an earlier calibration survives a calibration without chunks.
\<close>

theorem no_chunks_profile_kept_witness:
  "chunks_needed (calibrate_begin ((fresh 2 44100)\<lparr>noise_profile := Some [1 / 2, 1 / 4]\<rparr>)) (1 / 1024)
     = Inr 21 \<and>
   (\<exists>st'. calibrate_noise ((fresh 2 44100)\<lparr>noise_profile := Some [1 / 2, 1 / 4]\<rparr>) (1 / 1024)
             [Tick (1 / 10), Tick (6 / 10)] = Some (Inr st') \<and>
          noise_profile st' = Some [1 / 2, 1 / 4] \<and>
          process_chunk st' [1 / 2, 1 / 4]
            = process_chunk ((fresh 2 44100)\<lparr>noise_profile := Some [1 / 2, 1 / 4]\<rparr>) [1 / 2, 1 / 4])"
  using no_chunks_profile_kept [of "(fresh 2 44100)\<lparr>noise_profile := Some [1 / 2, 1 / 4]\<rparr>" "1 / 1024" 21
      "[Tick (1 / 10), Tick (6 / 10)]"
      "calibrate_begin ((fresh 2 44100)\<lparr>noise_profile := Some [1 / 2, 1 / 4]\<rparr>)"]
  by (auto simp: chunks_needed_def calibrate_begin_def fresh_def py_int_def)

text \<open>\<open>ilog2\<close> is the binary exponent.\<close>

lemma ilog2_bounds:
  assumes "0 < y"
  shows "2 powi (ilog2 y) \<le> y \<and> y < 2 powi (ilog2 y + 1)"
proof (cases "1 \<le> y")
  case True
  then have p: "0 < \<lfloor>y\<rfloor>" by simp
  from bitlen_bounds [OF p] have b: "2 ^ nat (bitlen \<lfloor>y\<rfloor> - 1) \<le> \<lfloor>y\<rfloor>"
    "\<lfloor>y\<rfloor> < 2 ^ nat (bitlen \<lfloor>y\<rfloor>)" by simp_all
  from p have k: "1 \<le> bitlen \<lfloor>y\<rfloor>" by (simp add: bitlen_alt_def)
  have "real_of_int (2 ^ nat (bitlen \<lfloor>y\<rfloor> - 1)) \<le> real_of_int \<lfloor>y\<rfloor>"
    using b(1) by (simp only: of_int_le_iff)
  then have lo: "2 ^ nat (bitlen \<lfloor>y\<rfloor> - 1) \<le> y" by (simp add: le_floor_iff)
  have "\<lfloor>y\<rfloor> + 1 \<le> 2 ^ nat (bitlen \<lfloor>y\<rfloor>)" using b(2) by simp
  then have "real_of_int (\<lfloor>y\<rfloor> + 1) \<le> real_of_int (2 ^ nat (bitlen \<lfloor>y\<rfloor>))"
    by (simp only: of_int_le_iff)
  then have hi: "y < 2 ^ nat (bitlen \<lfloor>y\<rfloor>)"
    by (simp add: floor_less_iff) linarith
  from True k lo hi show ?thesis
    by (simp add: ilog2_def power_int_def nat_diff_distrib)
next
  case False
  with assms have y1: "y < 1" by simp
  let ?x = "\<lceil>1 / y\<rceil> - 1"
  from assms y1 have "1 < 1 / y" by simp
  then have p: "0 < ?x" by (simp add: less_ceiling_iff)
  from bitlen_bounds [OF p] have b: "2 ^ nat (bitlen ?x - 1) \<le> ?x" "?x < 2 ^ nat (bitlen ?x)"
    by simp_all
  from p have k: "1 \<le> bitlen ?x" by (simp add: bitlen_alt_def)
  have "real_of_int ?x < 1 / y" using ceiling_correct [of "1 / y"] by simp
  moreover have "real_of_int (2 ^ nat (bitlen ?x - 1)) \<le> real_of_int ?x"
    using b(1) by (simp only: of_int_le_iff)
  ultimately have "2 ^ nat (bitlen ?x - 1) < 1 / y" by simp
  with assms have hi: "y < 1 / 2 ^ nat (bitlen ?x - 1)"
    by (simp add: field_simps)
  have "\<lceil>1 / y\<rceil> \<le> 2 ^ nat (bitlen ?x)" using b(2) by simp
  then have "1 / y \<le> 2 ^ nat (bitlen ?x)" by (simp add: ceiling_le_iff)
  with assms have lo: "1 / 2 ^ nat (bitlen ?x) \<le> y"
    by (simp add: field_simps)
  have e1: "2 powi (- bitlen ?x) = (1::real) / 2 ^ nat (bitlen ?x)"
    using k by (simp add: power_int_def field_simps)
  have e2: "2 powi (1 - bitlen ?x) = (1::real) / 2 ^ nat (bitlen ?x - 1)"
    using k by (simp add: power_int_def field_simps nat_diff_distrib)
  from False lo hi show ?thesis
    by (simp add: ilog2_def e1 e2)
qed

text \<open>
  Two familiar roundings: one tenth is stored as \<open>13421773 / 2^27\<close>, and \<open>2^24 + 1\<close>,
  a tie, goes to the even neighbour \<open>2^24\<close>.
\<close>

lemma f32_examples:
  "f32 (1 / 10) = 13421773 / 134217728" "f32 16777217 = 16777216" "f32 1 = 1"
  by (simp_all add: f32_def ilog2_def rne_def Let_def compute_bitlen)




















lemma process_chunk_mode: "process_chunk (st\<lparr>mode := m\<rparr>) c = process_chunk st c"
  by (rule process_chunk_cong) simp_all

lemma callback_mode:
  "s = t\<lparr>mode := m\<rparr> \<Longrightarrow> callback s c = map_option (\<lambda>u. u\<lparr>mode := m\<rparr>) (callback t c)"
  by (simp add: callback_def process_chunk_mode split: sum.splits)

lemma deliver_all_mode:
  "s = t\<lparr>mode := m\<rparr> \<Longrightarrow> deliver_all s cs = map_option (\<lambda>u. u\<lparr>mode := m\<rparr>) (deliver_all t cs)"
proof (induction cs arbitrary: s t)
  case Nil
  then show ?case by simp
next
  case (Cons c cs)
  show ?case
  proof (cases "callback t c")
    case None
    with callback_mode [OF Cons.prems, of c] show ?thesis by simp
  next
    case (Some t')
    with callback_mode [OF Cons.prems, of c] have "callback s c = Some (t'\<lparr>mode := m\<rparr>)" by simp
    with Some Cons.IH [OF refl, of t'] show ?thesis by simp
  qed
qed

lemma record_end_mode:
  "record_end (st\<lparr>mode := m\<rparr>) f =
     map_sum (\<lambda>(e, u). (e, u\<lparr>mode := m\<rparr>)) (\<lambda>(u, w). (u\<lparr>mode := m\<rparr>, w)) (record_end st f)"
  by (simp add: record_end_def Let_def)

lemma record_audio_mode:
  "record_audio (st\<lparr>mode := m\<rparr>) d f cs =
     map_option (map_sum (\<lambda>(e, u). (e, u\<lparr>mode := m\<rparr>)) (\<lambda>(u, w). (u\<lparr>mode := m\<rparr>, w)))
       (record_audio st d f cs)"
proof -
  have b: "record_begin (st\<lparr>mode := m\<rparr>) f = (record_begin st f)\<lparr>mode := m\<rparr>"
    by (simp add: record_begin_def)
  show ?thesis
    unfolding record_audio_def Let_def deliver_all_mode [OF b]
    by (cases "deliver_all (record_begin st f) cs") (simp_all add: b record_end_mode)
qed

lemma calibrate_loop_mode:
  "s = t\<lparr>mode := m\<rparr> \<Longrightarrow>
   calibrate_loop need limit s acc evs =
     map_option (\<lambda>(u, cs). (u\<lparr>mode := m\<rparr>, cs)) (calibrate_loop need limit t acc evs)"
proof (induction evs arbitrary: s t acc)
  case Nil
  then show ?case by simp
next
  case (Cons e evs)
  show ?case
  proof (cases e)
    case (Deliver c)
    show ?thesis
    proof (cases "callback t c")
      case None
      with callback_mode [OF Cons.prems, of c] Deliver Cons.prems show ?thesis by simp
    next
      case (Some t')
      with callback_mode [OF Cons.prems, of c] have "callback s c = Some (t'\<lparr>mode := m\<rparr>)"
        by simp
      with Some Cons.IH [OF refl, of t' acc] Deliver Cons.prems show ?thesis by simp
    qed
  next
    case (Tick u)
    show ?thesis
    proof (cases "audio_queue t")
      case Nil
      with Cons.IH [OF Cons.prems, of acc] Tick Cons.prems show ?thesis by simp
    next
      case (Cons c q)
      have "s\<lparr>audio_queue := q\<rparr> = (t\<lparr>audio_queue := q\<rparr>)\<lparr>mode := m\<rparr>"
        using Cons.prems by simp
      from Cons.IH [OF this, of "acc @ [c]"] Cons Tick Cons.prems show ?thesis by simp
    qed
  qed
qed

lemma calibrate_end_mode:
  "calibrate_end (st\<lparr>mode := m\<rparr>) cs =
     map_sum (\<lambda>(e, u). (e, u\<lparr>mode := m\<rparr>)) (\<lambda>u. u\<lparr>mode := m\<rparr>) (calibrate_end st cs)"
  by (simp add: calibrate_end_def split: sum.splits)

lemma calibrate_noise_mode:
  "calibrate_noise (st\<lparr>mode := m\<rparr>) d evs =
     map_option (map_sum (\<lambda>(e, u). (e, u\<lparr>mode := m\<rparr>)) (\<lambda>u. u\<lparr>mode := m\<rparr>))
       (calibrate_noise st d evs)"
proof -
  have b: "calibrate_begin (st\<lparr>mode := m\<rparr>) = (calibrate_begin st)\<lparr>mode := m\<rparr>"
    by (simp add: calibrate_begin_def)
  have n: "chunks_needed ((calibrate_begin st)\<lparr>mode := m\<rparr>) d = chunks_needed (calibrate_begin st) d"
    by (simp add: chunks_needed_def)
  show ?thesis
    unfolding calibrate_noise_def Let_def b n calibrate_loop_mode [OF refl]
    by (auto simp: calibrate_end_mode split: sum.splits option.splits)
qed

text \<open>
  C8. Two objects that differ only in \<open>mode\<close> denoise a chunk to the same result,
  record the same frames and the same file from the same deliveries, and derive the
  same noise profile from the same calibration run.
\<close>

theorem mode_inert:
  "process_chunk (st\<lparr>mode := m1\<rparr>) chunk = process_chunk (st\<lparr>mode := m2\<rparr>) chunk \<and>
   map_option (map_sum fst (\<lambda>(u, w). (output_frames u, w)))
       (record_audio (st\<lparr>mode := m1\<rparr>) duration fname delivered)
     = map_option (map_sum fst (\<lambda>(u, w). (output_frames u, w)))
         (record_audio (st\<lparr>mode := m2\<rparr>) duration fname delivered) \<and>
   map_option (map_sum fst noise_profile) (calibrate_noise (st\<lparr>mode := m1\<rparr>) duration evs)
     = map_option (map_sum fst noise_profile) (calibrate_noise (st\<lparr>mode := m2\<rparr>) duration evs)"
proof -
  have r: "map_option (map_sum fst (\<lambda>(u, w). (output_frames u, w)))
             (record_audio (st\<lparr>mode := m\<rparr>) duration fname delivered)
           = map_option (map_sum fst (\<lambda>(u, w). (output_frames u, w)))
               (record_audio st duration fname delivered)" for m
    unfolding record_audio_mode
    by (cases "record_audio st duration fname delivered")
       (auto simp: map_sum.compositionality comp_def case_prod_unfold split: sum.splits)
  have c: "map_option (map_sum fst noise_profile) (calibrate_noise (st\<lparr>mode := m\<rparr>) duration evs)
           = map_option (map_sum fst noise_profile) (calibrate_noise st duration evs)" for m
    unfolding calibrate_noise_mode
    by (cases "calibrate_noise st duration evs")
       (auto simp: map_sum.compositionality comp_def case_prod_unfold split: sum.splits)
  show ?thesis
    by (simp add: process_chunk_mode r c)
qed

text \<open>The two modes on one chunk, with and without a noise profile.\<close>

theorem mode_inert_witness:
  "process_chunk ((fresh 2 44100)\<lparr>mode := ''single_speaker''\<rparr>) [3 / 2, - (1 / 4)]
     = process_chunk ((fresh 2 44100)\<lparr>mode := ''multiple_speakers''\<rparr>) [3 / 2, - (1 / 4)] \<and>
   process_chunk ((fresh 2 44100)\<lparr>mode := ''multiple_speakers''\<rparr>) [3 / 2, - (1 / 4)]
     = Inr [1, - (1 / 4)]"
  using mode_inert [where st = "fresh 2 44100" and ?m1.0 = "''single_speaker''"
      and ?m2.0 = "''multiple_speakers''" and chunk = "[3 / 2, - (1 / 4)]"]
  by (simp add: fresh_def process_chunk_def lfilter_def clip_def)







end
